theory Spec2Isabelle
  imports Main "HOL-Library.Sublist"
begin

section \<open>Python string operations used by the generator\<close>

text \<open>
  A Python \<open>str\<close> is modelled as a \<open>string\<close>: a list of characters, each character being
  the code point of one Python character in the range 0..255.  The character classes
  below are those of Python 3 on that range.
\<close>

definition bslash :: char where
  "bslash = CHR 0x5C"

definition isspace :: "char \<Rightarrow> bool" where
  "isspace c = (let n = (of_char c :: nat) in
     (9 \<le> n \<and> n \<le> 13) \<or> (28 \<le> n \<and> n \<le> 32) \<or> n = 133 \<or> n = 160)"

definition isalpha :: "char \<Rightarrow> bool" where
  "isalpha c = (let n = (of_char c :: nat) in
     (65 \<le> n \<and> n \<le> 90) \<or> (97 \<le> n \<and> n \<le> 122) \<or> n = 170 \<or> n = 181 \<or> n = 186 \<or>
     (192 \<le> n \<and> n \<le> 214) \<or> (216 \<le> n \<and> n \<le> 246) \<or> (248 \<le> n \<and> n \<le> 255))"

definition isdecimal :: "char \<Rightarrow> bool" where
  "isdecimal c = (let n = (of_char c :: nat) in 48 \<le> n \<and> n \<le> 57)"

definition isdigit :: "char \<Rightarrow> bool" where
  "isdigit c = (let n = (of_char c :: nat) in isdecimal c \<or> n = 178 \<or> n = 179 \<or> n = 185)"

definition isnumeric :: "char \<Rightarrow> bool" where
  "isnumeric c = (let n = (of_char c :: nat) in isdigit c \<or> (188 \<le> n \<and> n \<le> 190))"

text \<open>\<open>c.isalnum()\<close> is, by Python's definition, the disjunction of the four classes.\<close>

definition isalnum :: "char \<Rightarrow> bool" where
  "isalnum c = (isalpha c \<or> isdecimal c \<or> isdigit c \<or> isnumeric c)"

definition startswith :: "string \<Rightarrow> string \<Rightarrow> bool" where
  "startswith s p = prefix p s"

definition endswith :: "string \<Rightarrow> string \<Rightarrow> bool" where
  "endswith s x = suffix x s"

text \<open>
  \<open>s.replace(old, new)\<close>: the occurrences of \<open>old\<close> are found from the left and do not
  overlap; with an empty \<open>old\<close> Python puts \<open>new\<close> before every character and at the end.
\<close>

function str_replace :: "string \<Rightarrow> string \<Rightarrow> string \<Rightarrow> string" where
  "str_replace [] old new = (if old = [] then new else [])"
| "str_replace (c # cs) old new =
     (if old = [] then new @ c # str_replace cs old new
      else if prefix old (c # cs) then new @ str_replace (drop (length old) (c # cs)) old new
      else c # str_replace cs old new)"
  by pat_completeness auto
termination
  by (relation "measure (\<lambda>(s, old, new). length s)") auto



definition rstrip_chars :: "string \<Rightarrow> string \<Rightarrow> string" where
  "rstrip_chars s chars = rev (dropWhile (\<lambda>c. c \<in> set chars) (rev s))"


text \<open>\<open>sep.join(xs)\<close>.\<close>

fun join :: "string \<Rightarrow> string list \<Rightarrow> string" where
  "join sep [] = []"
| "join sep [x] = x"
| "join sep (x # y # ys) = x @ sep @ join sep (y # ys)"

text \<open>\<open>s.rsplit(sep, 1)\<close> and \<open>s.split(sep, 1)\<close> for a one-character separator.\<close>

definition rsplit1 :: "string \<Rightarrow> char \<Rightarrow> string list" where
  "rsplit1 s sep =
     (if sep \<in> set s
      then [rev (tl (dropWhile (\<lambda>c. c \<noteq> sep) (rev s))), rev (takeWhile (\<lambda>c. c \<noteq> sep) (rev s))]
      else [s])"


section \<open>Module names\<close>

text \<open>\<open>Route53TerraformGenerator.sanitize_module_name\<close>.\<close>

definition sanitize_module_name :: "string \<Rightarrow> string" where
  "sanitize_module_name domain =
     (let name0 = str_replace (str_replace domain ''.'' ''_'') ''-'' ''_'';
          name = (if name0 = [] \<or> \<not> (isalpha (hd name0) \<or> hd name0 = CHR ''_'')
                  then ''_'' @ name0 else name0)
      in map (\<lambda>ch. if isalnum ch \<or> ch = CHR ''_'' then ch else CHR ''_'') name)"

text \<open>What the sanitizer does to one character of the name.\<close>

definition sanitize_char :: "char \<Rightarrow> char" where
  "sanitize_char c = (if c = CHR ''.'' \<or> c = CHR ''-'' then CHR ''_''
              else if isalnum c \<or> c = CHR ''_'' then c else CHR ''_'')"

section \<open>Zones and records\<close>

text \<open>
  The dictionaries built by \<open>list_hosted_zones\<close> and \<open>get_zone_records\<close>, with the keys
  the generator reads.  The key \<open>alias\<close> of a record is present or absent, and \<open>ttl\<close>
  is an integer or \<open>None\<close>.
\<close>

record zone =
  zone_id :: string
  zone_name :: string
  zone_private :: bool
  zone_comment :: string
  zone_record_count :: int

record alias_target =
  alias_name :: string
  alias_zone_id :: string
  alias_evaluate_target_health :: bool

record dns_record =
  rec_name :: string
  rec_type :: string
  rec_ttl :: "int option"
  rec_records :: "string list"
  rec_alias :: "alias_target option"

text \<open>\<open>is_subdomain\<close>: the first zone of the listing whose name is a proper dotted suffix.\<close>

fun is_subdomain :: "string \<Rightarrow> zone list \<Rightarrow> string option" where
  "is_subdomain domain [] = None"
| "is_subdomain domain (z # zs) =
     (if domain \<noteq> zone_name z \<and> endswith domain (''.'' @ zone_name z)
      then Some (zone_name z)
      else is_subdomain domain zs)"

text \<open>The truth value Python gives an \<open>Optional[str]\<close> in \<open>if parent_zone:\<close>.\<close>

definition truthy :: "string option \<Rightarrow> bool" where
  "truthy p = (case p of None \<Rightarrow> False | Some s \<Rightarrow> s \<noteq> [])"

section \<open>Relative record names\<close>

text \<open>
  The relative name of a record, as \<open>generate_terraform_content\<close> computes it for the
  \<open>name\<close> line of a record entry.  The slice \<open>name[:-len(zone_name)-1]\<close> keeps the first
  \<open>len(name) - len(zone_name) - 1\<close> characters.
\<close>

definition content_record_name :: "string \<Rightarrow> string \<Rightarrow> string" where
  "content_record_name zname name =
     (let record_name =
            (if name = zname then []
             else if endswith name (''.'' @ zname) then take (length name - (length zname + 1)) name
             else name)
      in if record_name \<noteq> [] then
           (let record_name = str_replace record_name (bslash # ''100'') ''@''
            in if record_name = ''@'' then []
               else if endswith record_name ''.@'' \<or> endswith record_name (''.'' @ bslash # ''100'')
               then rsplit1 record_name (CHR ''.'') ! 0
               else record_name)
         else record_name)"

text \<open>The same computation as \<open>generate_import_blocks\<close> writes it for the import keys.\<close>

definition import_record_name :: "string \<Rightarrow> string \<Rightarrow> string" where
  "import_record_name zname name =
     (let record_name =
            (if name = zname then []
             else if endswith name (''.'' @ zname) then take (length name - (length zname + 1)) name
             else name)
      in if record_name \<noteq> [] then
           (let record_name = str_replace record_name (bslash # ''100'') ''@''
            in if record_name = ''@'' then []
               else if endswith record_name ''.@'' \<or> endswith record_name (''.'' @ bslash # ''100'')
               then rsplit1 record_name (CHR ''.'') ! 0
               else record_name)
         else record_name)"

text \<open>
  The relative name in the words of the specification: the owner with the zone's name
  suffix stripped (the apex gives the empty string, an owner outside the zone is kept
  whole), then every \<open>\100\<close> replaced by \<open>@\<close>, a result that is exactly \<open>@\<close> made empty,
  and a trailing \<open>.@\<close> or \<open>.\100\<close> cut off.
\<close>

definition spec_strip_zone :: "string \<Rightarrow> string \<Rightarrow> string" where
  "spec_strip_zone zname owner =
     (if owner = zname then []
      else if suffix (''.'' @ zname) owner then take (length owner - length (''.'' @ zname)) owner
      else owner)"

definition spec_relative_name :: "string \<Rightarrow> string \<Rightarrow> string" where
  "spec_relative_name zname owner =
     (let r = str_replace (spec_strip_zone zname owner) (bslash # ''100'') ''@''
      in if r = ''@'' then []
         else if suffix ''.@'' r then take (length r - 2) r
         else if suffix (''.'' @ bslash # ''100'') r then take (length r - 5) r
         else r)"

section \<open>The zone artifact\<close>

definition dquote :: char where
  "dquote = CHR 0x22"

definition TERRAFORM_MODULE_VERSION :: string where
  "TERRAFORM_MODULE_VERSION = ''~> 5.0''"

text \<open>The decimal text of an integer, as an f-string renders a TTL.\<close>

fun str_nat :: "nat \<Rightarrow> string" where
  "str_nat n = (if n < 10 then [char_of (48 + n)]
                else str_nat (n div 10) @ [char_of (48 + n mod 10)])"

declare str_nat.simps [simp del]

definition str_int :: "int \<Rightarrow> string" where
  "str_int i = (if i < 0 then ''-'' @ str_nat (nat (- i)) else str_nat (nat i))"

text \<open>\<open>str(b).lower()\<close> for a Boolean.\<close>

definition str_bool_lower :: "bool \<Rightarrow> string" where
  "str_bool_lower b = (if b then ''true'' else ''false'')"

text \<open>
  The value of a TXT record as it is written: one layer of surrounding double quotes is
  removed (\<open>r[1:-1]\<close>) when the value starts and ends with a double quote, then
  backslashes and double quotes are escaped for the string literal.
\<close>

definition txt_unquote :: "string \<Rightarrow> string" where
  "txt_unquote r =
     (if startswith r [dquote] \<and> endswith r [dquote] then drop 1 (take (length r - 1) r) else r)"

definition hcl_escape :: "string \<Rightarrow> string" where
  "hcl_escape r = str_replace (str_replace r [bslash] [bslash, bslash]) [dquote] [bslash, dquote]"

definition format_txt_record :: "string \<Rightarrow> string" where
  "format_txt_record r = [dquote] @ hcl_escape (txt_unquote r) @ [dquote]"

definition format_quoted :: "string \<Rightarrow> string" where
  "format_quoted r = [dquote] @ r @ [dquote]"

definition formatted_records :: "dns_record \<Rightarrow> string list" where
  "formatted_records record =
     (if rec_type record = ''TXT'' then map format_txt_record (rec_records record)
      else if rec_type record = ''MX'' then map format_quoted (rec_records record)
      else map format_quoted (rec_records record))"

text \<open>The escaping of one character, in the words of the specification.\<close>

definition escape_char :: "char \<Rightarrow> string" where
  "escape_char c = (if c = bslash then [bslash, bslash]
                    else if c = dquote then [bslash, dquote] else [c])"

text \<open>Reading a string literal back: a backslash gives the character after it.\<close>

fun hcl_unescape :: "string \<Rightarrow> string" where
  "hcl_unescape [] = []"
| "hcl_unescape [c] = [c]"
| "hcl_unescape (c # d # cs) =
     (if c = bslash then d # hcl_unescape cs else c # hcl_unescape (d # cs))"

text \<open>The lines of one entry of the \<open>records\<close> list.\<close>

definition record_entry :: "string \<Rightarrow> dns_record \<Rightarrow> string list" where
  "record_entry zname record =
     [''    {'',
      ''      name = '' @ [dquote] @ content_record_name zname (rec_name record) @ [dquote],
      ''      type = '' @ [dquote] @ rec_type record @ [dquote]] @
     (case rec_alias record of
        Some a \<Rightarrow>
          [''      alias = {'',
           ''        name    = '' @ [dquote] @ alias_name a @ [dquote],
           ''        zone_id = '' @ [dquote] @ alias_zone_id a @ [dquote],
           ''        evaluate_target_health = '' @ str_bool_lower (alias_evaluate_target_health a),
           ''      }'']
      | None \<Rightarrow>
          (case rec_ttl record of
             None \<Rightarrow> []
           | Some t \<Rightarrow> if t \<noteq> 0 then [''      ttl  = '' @ str_int t] else []) @
          (if rec_records record \<noteq> [] then
             (let fr = formatted_records record
              in if length fr = 1 then [''      records = ['' @ fr ! 0 @ '']'']
                 else [''      records = [''] @ map (\<lambda>r. ''        '' @ r @ '','') fr @ [''      ]''])
           else [])) @
     [''    },'']"

text \<open>The delegation record a subdomain zone adds to its parent zone.\<close>

definition delegation_records :: "string \<Rightarrow> string \<Rightarrow> string list" where
  "delegation_records zname parent_zone =
     (let module_name = sanitize_module_name zname;
          parent_module_name = sanitize_module_name parent_zone;
          subdomain_prefix = take (length zname - (length parent_zone + 1)) zname
      in [''# Add NS records to the parent zone for delegation'',
          ''module '' @ [dquote] @ module_name @ ''_delegation_records'' @ [dquote] @ '' {'',
          ''  source  = '' @ [dquote] @ ''terraform-aws-modules/route53/aws//modules/records'' @ [dquote],
          ''  version = '' @ [dquote] @ TERRAFORM_MODULE_VERSION @ [dquote],
          [],
          ''  zone_name = '' @ [dquote] @ parent_zone @ [dquote],
          [],
          ''  records = ['',
          ''    {'',
          ''      name = '' @ [dquote] @ subdomain_prefix @ [dquote],
          ''      type = '' @ [dquote] @ ''NS'' @ [dquote],
          ''      ttl  = 300'',
          ''      records = module.'' @ module_name @ ''_subdomain_zone.route53_zone_name_servers['' @
             [dquote] @ zname @ [dquote] @ '']'',
          ''    }'',
          ''  ]'',
          [],
          ''}''])"

text \<open>
  \<open>generate_terraform_content\<close>, as the list \<open>content\<close> it builds; the function returns
  the lines joined by newlines.
\<close>

definition content_lines :: "zone \<Rightarrow> dns_record list \<Rightarrow> string option \<Rightarrow> string list" where
  "content_lines z records parent_zone =
     (let zname = zone_name z;
          module_name = sanitize_module_name zname;
          sub = truthy parent_zone
      in [''# Terraform configuration for '' @ zname,
          ''# Generated automatically - review before applying'',
          []] @
         (if sub then
            [''# Create delegation set for subdomain'',
             ''module '' @ [dquote] @ module_name @ ''_delegation_set'' @ [dquote] @ '' {'',
             ''  source  = '' @ [dquote] @ ''terraform-aws-modules/route53/aws//modules/delegation-sets'' @ [dquote],
             ''  version = '' @ [dquote] @ TERRAFORM_MODULE_VERSION @ [dquote],
             [],
             ''  delegation_sets = {'',
             ''    '' @ [dquote] @ module_name @ ''_set'' @ [dquote] @ '' = {'',
             ''      reference_name = '' @ [dquote] @ zname @ [dquote],
             ''    }'',
             ''  }'',
             ''}'',
             []]
          else []) @
         [''# Create the '' @ (if sub then ''subdomain '' else []) @ ''zone'',
          ''module '' @ [dquote] @ module_name @ (if sub then ''_subdomain_zone'' else []) @ [dquote] @ '' {'',
          ''  source  = '' @ [dquote] @ ''terraform-aws-modules/route53/aws//modules/zones'' @ [dquote],
          ''  version = '' @ [dquote] @ TERRAFORM_MODULE_VERSION @ [dquote],
          [],
          ''  zones = {'',
          ''    '' @ [dquote] @ zname @ [dquote] @ '' = {''] @
         (if zone_comment z \<noteq> []
          then [''      comment = '' @ [dquote] @ zone_comment z @ [dquote]]
          else [''      comment = '' @ [dquote] @ zname @ '' managed by Terraform'' @ [dquote]]) @
         (if sub
          then [''      delegation_set_id = module.'' @ module_name @
                  ''_delegation_set.route53_delegation_set_id['' @ [dquote] @ module_name @ ''_set'' @
                  [dquote] @ '']'']
          else []) @
         [''      tags = merge('',
          ''        var.common_tags,'',
          ''        {'',
          ''          Environment = var.environment'',
          ''          Zone        = '' @ [dquote] @ zname @ [dquote],
          ''        }'',
          ''      )'',
          ''    }'',
          ''  }''] @
         (if sub then [[], ''  depends_on = [module.'' @ module_name @ ''_delegation_set]''] else []) @
         [''}'', []] @
         (if records \<noteq> [] then
            [''# Create zone records'',
             ''module '' @ [dquote] @ module_name @ (if sub then ''_subdomain_zone'' else []) @
                ''_records'' @ [dquote] @ '' {'',
             ''  source  = '' @ [dquote] @ ''terraform-aws-modules/route53/aws//modules/records'' @ [dquote],
             ''  version = '' @ [dquote] @ TERRAFORM_MODULE_VERSION @ [dquote],
             [],
             ''  zone_name = '' @ [dquote] @ zname @ [dquote],
             [],
             ''  records = [''] @
            concat (map (record_entry zname) records) @
            [''  ]'', [], ''}'', []]
          else []) @
         (case parent_zone of
            None \<Rightarrow> []
          | Some p \<Rightarrow> if p \<noteq> [] then delegation_records zname p else []))"

definition generate_terraform_content :: "zone \<Rightarrow> dns_record list \<Rightarrow> string option \<Rightarrow> string" where
  "generate_terraform_content z records parent_zone =
     join ''\<newline>'' (content_lines z records parent_zone)"

section \<open>Listing the records of a zone\<close>

text \<open>
  One record set of the provider's answer, with the keys \<open>get_zone_records\<close> reads:
  \<open>Name\<close>, \<open>Type\<close>, the optional \<open>TTL\<close>, the values of the optional \<open>ResourceRecords\<close>
  and the optional \<open>AliasTarget\<close> (\<open>DNSName\<close>, \<open>HostedZoneId\<close>, \<open>EvaluateTargetHealth\<close>).
\<close>

record resource_record_set =
  rrs_Name :: string
  rrs_Type :: string
  rrs_TTL :: "int option"
  rrs_ResourceRecords :: "string list option"
  rrs_AliasTarget :: "alias_target option"

text \<open>
  The paginator hands out pages one after the other; asking for a page either gives the
  page or raises \<open>ClientError\<close>.  A provider maps a hosted zone id to that sequence.
\<close>

datatype page_result = Page "resource_record_set list" | ClientError string

type_synonym provider = "string \<Rightarrow> page_result list"

definition record_data :: "resource_record_set \<Rightarrow> dns_record" where
  "record_data record_set =
     (let base = \<lparr> rec_name = rstrip_chars (rrs_Name record_set) ''.'',
                   rec_type = rrs_Type record_set,
                   rec_ttl = rrs_TTL record_set,
                   rec_records = (case rrs_ResourceRecords record_set of None \<Rightarrow> [] | Some vs \<Rightarrow> vs),
                   rec_alias = None \<rparr>
      in case rrs_AliasTarget record_set of
           None \<Rightarrow> base
         | Some a \<Rightarrow> base \<lparr> rec_alias := Some (a \<lparr> alias_name := rstrip_chars (alias_name a) ''.'' \<rparr>),
                            rec_ttl := None \<rparr>)"

text \<open>The inner loop over the record sets of one page.\<close>

fun page_records :: "string \<Rightarrow> resource_record_set list \<Rightarrow> dns_record list \<Rightarrow> dns_record list" where
  "page_records zname [] records = records"
| "page_records zname (record_set # rest) records =
     (if (rrs_Type record_set = ''NS'' \<or> rrs_Type record_set = ''SOA'') \<and>
         rstrip_chars (rrs_Name record_set) ''.'' = zname
      then page_records zname rest records
      else page_records zname rest (records @ [record_data record_set]))"

text \<open>
  The outer loop inside \<open>try\<close>: a \<open>ClientError\<close> leaves the loop, the handler prints the
  message, and the function returns the list \<open>records\<close> as it is then.  The result is the
  list together with what was printed.
\<close>

fun fetch_pages :: "string \<Rightarrow> page_result list \<Rightarrow> dns_record list \<Rightarrow> dns_record list \<times> string list" where
  "fetch_pages zname [] records = (records, [])"
| "fetch_pages zname (Page sets # pages) records =
     fetch_pages zname pages (page_records zname sets records)"
| "fetch_pages zname (ClientError e # pages) records =
     (records, [''Error listing records for zone '' @ zname @ '': '' @ e])"

definition get_zone_records :: "provider \<Rightarrow> string \<Rightarrow> string \<Rightarrow> dns_record list \<times> string list" where
  "get_zone_records prov zid zname = fetch_pages zname (prov zid) []"

section \<open>Processing the zones\<close>

text \<open>The entries of \<open>self.processed_zones\<close>.\<close>

record processed_zone =
  pz_name :: string
  pz_id :: string
  pz_is_subdomain :: bool
  pz_has_records :: bool
  pz_existing :: bool

text \<open>
  The part of the generator's state that \<open>process_zone\<close> changes: the zone files already
  in the zones directory (by zone name) and the processed zones.
\<close>

record gen_state =
  zone_files :: "string \<rightharpoonup> string"
  processed_zones :: "processed_zone list"

definition process_zone ::
  "bool \<Rightarrow> bool \<Rightarrow> provider \<Rightarrow> zone list \<Rightarrow> gen_state \<Rightarrow> zone \<Rightarrow> bool \<times> gen_state" where
  "process_zone force dry_run prov all_zones st z =
     (let zname = zone_name z
      in if zone_files st zname \<noteq> None \<and> \<not> force then (False, st)
         else if zone_private z then (False, st)
         else
           (let records = fst (get_zone_records prov (zone_id z) zname);
                parent_zone = is_subdomain zname all_zones;
                content = generate_terraform_content z records parent_zone;
                st1 = (if dry_run then st
                       else st \<lparr> zone_files := (zone_files st)(zname \<mapsto> content) \<rparr>)
            in (True,
                st1 \<lparr> processed_zones := processed_zones st1 @
                       [\<lparr> pz_name = zname, pz_id = zone_id z,
                          pz_is_subdomain = (parent_zone \<noteq> None),
                          pz_has_records = (length records > 0),
                          pz_existing = True \<rparr>] \<rparr>)))"

text \<open>The loop of \<open>run\<close> over all zones, with the two counters.\<close>

fun process_all ::
  "bool \<Rightarrow> bool \<Rightarrow> provider \<Rightarrow> zone list \<Rightarrow> zone list \<Rightarrow> gen_state \<times> nat \<times> nat
     \<Rightarrow> gen_state \<times> nat \<times> nat" where
  "process_all force dry_run prov all_zones [] acc = acc"
| "process_all force dry_run prov all_zones (z # zs) (st, processed, skipped) =
     (case process_zone force dry_run prov all_zones st z of
        (True, st') \<Rightarrow> process_all force dry_run prov all_zones zs (st', processed + 1, skipped)
      | (False, st') \<Rightarrow> process_all force dry_run prov all_zones zs (st', processed, skipped + 1))"

section \<open>Import blocks\<close>






text \<open>The module names of a processed zone, chosen by \<open>is_subdomain\<close>.\<close>

definition zone_module_of :: "processed_zone \<Rightarrow> string" where
  "zone_module_of zi =
     (if pz_is_subdomain zi then sanitize_module_name (pz_name zi) @ ''_subdomain_zone''
      else sanitize_module_name (pz_name zi))"

definition records_module_of :: "processed_zone \<Rightarrow> string" where
  "records_module_of zi =
     (if pz_is_subdomain zi then sanitize_module_name (pz_name zi) @ ''_subdomain_zone_records''
      else sanitize_module_name (pz_name zi) @ ''_records'')"

text \<open>The import block of a zone, as \<open>generate_import_blocks\<close> appends it.\<close>

definition zone_to_addr :: "processed_zone \<Rightarrow> string" where
  "zone_to_addr zi =
     ''module.zones.module.'' @ zone_module_of zi @ ''.aws_route53_zone.this['' @
       [dquote] @ pz_name zi @ [dquote] @ '']''"

definition zone_import_block :: "processed_zone \<Rightarrow> string list" where
  "zone_import_block zi =
     [''# Import hosted zone'',
      ''import {'',
      ''  to = '' @ zone_to_addr zi,
      ''  id = '' @ [dquote] @ pz_id zi @ [dquote],
      ''}'',
      []]"

text \<open>The import block of a record: its key, its import identifier and the six lines.\<close>

definition terraform_key :: "processed_zone \<Rightarrow> dns_record \<Rightarrow> string" where
  "terraform_key zi record =
     import_record_name (pz_name zi) (rec_name record) @ '' '' @ rec_type record"

definition import_identifier :: "processed_zone \<Rightarrow> dns_record \<Rightarrow> string" where
  "import_identifier zi record =
     (let import_name_raw = rstrip_chars (rec_name record) ''.'';
          import_name_hcl = str_replace import_name_raw [bslash] [bslash, bslash]
      in pz_id zi @ ''_'' @ import_name_hcl @ ''_'' @ rec_type record)"

definition record_to_addr :: "processed_zone \<Rightarrow> dns_record \<Rightarrow> string" where
  "record_to_addr zi record =
     ''module.zones.module.'' @ records_module_of zi @ ''.aws_route53_record.this['' @
       [dquote] @ terraform_key zi record @ [dquote] @ '']''"

definition record_import_block :: "processed_zone \<Rightarrow> dns_record \<Rightarrow> string list" where
  "record_import_block zi record =
     [''# Import record: '' @ terraform_key zi record,
      ''import {'',
      ''  to = '' @ record_to_addr zi record,
      ''  id = '' @ [dquote] @ import_identifier zi record @ [dquote],
      ''}'',
      []]"

text \<open>The two loops that build \<open>blocks\<close>: over the processed zones, and over a zone's records.\<close>

fun record_blocks_loop :: "processed_zone \<Rightarrow> dns_record list \<Rightarrow> string list \<Rightarrow> string list" where
  "record_blocks_loop zi [] blocks = blocks"
| "record_blocks_loop zi (record # records) blocks =
     (if rec_type record = ''NS'' \<or> rec_type record = ''SOA''
      then record_blocks_loop zi records blocks
      else record_blocks_loop zi records (blocks @ record_import_block zi record))"

fun import_blocks_loop :: "provider \<Rightarrow> processed_zone list \<Rightarrow> string list \<Rightarrow> string list" where
  "import_blocks_loop prov [] blocks = blocks"
| "import_blocks_loop prov (zi # zis) blocks =
     (if \<not> pz_existing zi then import_blocks_loop prov zis blocks
      else import_blocks_loop prov zis
             (record_blocks_loop zi (fst (get_zone_records prov (pz_id zi) (pz_name zi)))
                (blocks @ zone_import_block zi)))"

definition import_blocks :: "provider \<Rightarrow> processed_zone list \<Rightarrow> string list" where
  "import_blocks prov pzs = import_blocks_loop prov pzs []"





section \<open>Import commands\<close>










section \<open>The aggregate outputs documents\<close>





















text \<open>The records of a processed zone that get an import block or an import command.\<close>

definition managed_records :: "provider \<Rightarrow> processed_zone \<Rightarrow> dns_record list" where
  "managed_records prov zi =
     filter (\<lambda>r. \<not> (rec_type r = ''NS'' \<or> rec_type r = ''SOA''))
       (fst (get_zone_records prov (pz_id zi) (pz_name zi)))"

text \<open>The record sets \<open>get_zone_records\<close> keeps, and the names of the processed zones.\<close>

definition kept_record_set :: "string \<Rightarrow> resource_record_set \<Rightarrow> bool" where
  "kept_record_set zname record_set =
     (\<not> ((rrs_Type record_set = ''NS'' \<or> rrs_Type record_set = ''SOA'') \<and>
         rstrip_chars (rrs_Name record_set) ''.'' = zname))"

definition processed_names :: "gen_state \<Rightarrow> string set" where
  "processed_names st = pz_name ` set (processed_zones st)"



definition binding_addresses :: "provider \<Rightarrow> processed_zone list \<Rightarrow> string list" where
  "binding_addresses prov pzs =
     concat (map (\<lambda>zi. zone_to_addr zi # map (record_to_addr zi) (managed_records prov zi))
               (filter pz_existing pzs))"





section \<open>Example data\<close>

definition example_zone_info :: processed_zone where
  "example_zone_info = \<lparr> pz_name = ''example.com'', pz_id = ''Z1'', pz_is_subdomain = False,
     pz_has_records = True, pz_existing = True \<rparr>"

definition example_api_record :: dns_record where
  "example_api_record = \<lparr> rec_name = ''api.example.com'', rec_type = ''A'', rec_ttl = Some 300,
     rec_records = [''192.0.2.1''], rec_alias = None \<rparr>"

definition example_provider :: provider where
  "example_provider zid =
     [Page [\<lparr> rrs_Name = ''api.example.com.'', rrs_Type = ''A'', rrs_TTL = Some 300,
              rrs_ResourceRecords = Some [''192.0.2.1''], rrs_AliasTarget = None \<rparr>]]"

definition example_apex_record :: dns_record where
  "example_apex_record = \<lparr> rec_name = bslash # ''100.example.com'', rec_type = ''TXT'',
     rec_ttl = Some 300, rec_records = [''v=spf1 -all''], rec_alias = None \<rparr>"

definition example_parent_zone :: zone where
  "example_parent_zone = \<lparr> zone_id = ''Z1'', zone_name = ''example.com'', zone_private = False,
     zone_comment = [], zone_record_count = 2 \<rparr>"

definition example_dev_zone :: zone where
  "example_dev_zone = \<lparr> zone_id = ''Z2'', zone_name = ''dev.example.com'', zone_private = False,
     zone_comment = [], zone_record_count = 2 \<rparr>"

definition example_failing_provider :: provider where
  "example_failing_provider zid =
     [Page [\<lparr> rrs_Name = ''api.example.com.'', rrs_Type = ''A'', rrs_TTL = Some 300,
              rrs_ResourceRecords = Some [''192.0.2.1''], rrs_AliasTarget = None \<rparr>],
      ClientError ''Throttling'']"

definition example_state :: gen_state where
  "example_state = \<lparr> zone_files = Map.empty, processed_zones = [] \<rparr>"








section \<open>Facts about the string operations\<close>

lemma str_replace_char:
  "str_replace s [a] [b] = map (\<lambda>c. if c = a then b else c) s"
  by (induction s) auto

lemma isalpha_isalnum: "isalpha c \<Longrightarrow> isalnum c"
  by (simp add: isalnum_def)

section \<open>Module names are identifiers\<close>

lemma not_isalnum_dot_hyphen: "\<not> isalnum (CHR ''.'')" "\<not> isalnum (CHR ''-'')"
  by (simp_all add: isalnum_def isalpha_def isdecimal_def isdigit_def isnumeric_def)

lemma sanitize_module_name_map:
  "sanitize_module_name domain =
     (if domain = [] \<or> \<not> (isalpha (hd domain) \<or> hd domain = CHR ''_'' \<or>
           hd domain = CHR ''.'' \<or> hd domain = CHR ''-'')
      then ''_'' else []) @
     map (\<lambda>c. if c = CHR ''.'' \<or> c = CHR ''-'' then CHR ''_''
              else if isalnum c \<or> c = CHR ''_'' then c else CHR ''_'') domain"
proof (cases domain)
  case Nil
  then show ?thesis
    by (simp add: sanitize_module_name_def)
next
  case (Cons a as)
  have m: "map (\<lambda>ch. if isalnum ch \<or> ch = CHR ''_'' then ch else CHR ''_'')
             (map (\<lambda>c. if c = CHR ''-'' then CHR ''_'' else c)
               (map (\<lambda>c. if c = CHR ''.'' then CHR ''_'' else c) xs))
           = map (\<lambda>c. if c = CHR ''.'' \<or> c = CHR ''-'' then CHR ''_''
              else if isalnum c \<or> c = CHR ''_'' then c else CHR ''_'') xs" for xs
    using not_isalnum_dot_hyphen by (induction xs) simp_all
  show ?thesis
    unfolding sanitize_module_name_def str_replace_char Let_def Cons
    using m [of "a # as"] not_isalnum_dot_hyphen
    by (simp split: if_splits)
qed

lemma sanitize_char_cases:
  "isalnum (sanitize_char c) \<or> sanitize_char c = CHR ''_''"
  "sanitize_char c \<noteq> CHR ''.''" "sanitize_char c \<noteq> CHR ''-''"
  using not_isalnum_dot_hyphen by (auto simp: sanitize_char_def)

lemma sanitize_char_alpha: "isalpha c \<or> c = CHR ''_'' \<or> c = CHR ''.'' \<or> c = CHR ''-'' \<Longrightarrow>
  isalpha (sanitize_char c) \<or> sanitize_char c = CHR ''_''"
  by (auto simp: sanitize_char_def isalpha_isalnum)

text \<open>
  C10.  For every input string, also the empty one and one that starts with a digit,
  \<open>sanitize_module_name\<close> returns a non-empty string whose first character is a letter
  or an underscore and whose characters are all alphanumeric or underscores.  The result
  is the input with every dot and hyphen (and every other character that is not
  alphanumeric) replaced by an underscore, after an underscore put in front when the
  input is empty or does not start with a letter, an underscore, a dot or a hyphen; so
  no dot and no hyphen is left.  Being a HOL function, it is total and deterministic.
\<close>

theorem sanitize_module_name_identifier:
  "sanitize_module_name domain \<noteq> [] \<and>
   (isalpha (hd (sanitize_module_name domain)) \<or> hd (sanitize_module_name domain) = CHR ''_'') \<and>
   (\<forall>c \<in> set (sanitize_module_name domain). isalnum c \<or> c = CHR ''_'') \<and>
   CHR ''.'' \<notin> set (sanitize_module_name domain) \<and>
   CHR ''-'' \<notin> set (sanitize_module_name domain) \<and>
   (\<exists>pre. (pre = [] \<or> pre = ''_'') \<and>
      sanitize_module_name domain =
        pre @ map (\<lambda>c. if c = CHR ''.'' \<or> c = CHR ''-'' then CHR ''_''
                        else if isalnum c \<or> c = CHR ''_'' then c else CHR ''_'') domain)"
proof -
  let ?r = "sanitize_module_name domain"
  let ?ok = "domain \<noteq> [] \<and> (isalpha (hd domain) \<or> hd domain = CHR ''_'' \<or>
           hd domain = CHR ''.'' \<or> hd domain = CHR ''-'')"
  have f: "(\<lambda>c. if c = CHR ''.'' \<or> c = CHR ''-'' then CHR ''_''
              else if isalnum c \<or> c = CHR ''_'' then c else CHR ''_'') = sanitize_char"
    by (rule ext) (simp only: sanitize_char_def)
  have r: "?r = (if ?ok then [] else ''_'') @ map sanitize_char domain"
    by (subst sanitize_module_name_map) (simp add: f)
  have ne: "?r \<noteq> []"
    by (subst r) simp
  have first: "isalpha (hd ?r) \<or> hd ?r = CHR ''_''"
  proof (cases ?ok)
    case True
    then have "?r = map sanitize_char domain" and "domain \<noteq> []"
      using r by simp_all
    then have "hd ?r = sanitize_char (hd domain)"
      by (simp add: hd_map)
    with True sanitize_char_alpha [of "hd domain"] show ?thesis
      by simp
  next
    case False
    then have "?r = ''_'' @ map sanitize_char domain"
      by (subst r) (simp only: if_False)
    then have "hd ?r = CHR ''_''"
      by simp
    then show ?thesis ..
  qed
  have sub: "set ?r \<subseteq> insert (CHR ''_'') (sanitize_char ` set domain)"
    by (subst r) auto
  have all: "\<forall>c \<in> set ?r. isalnum c \<or> c = CHR ''_''"
  proof
    fix c assume "c \<in> set ?r"
    with sub have "c = CHR ''_'' \<or> c \<in> sanitize_char ` set domain"
      by blast
    then show "isalnum c \<or> c = CHR ''_''"
      using sanitize_char_cases(1) by blast
  qed
  have nodot: "CHR ''.'' \<notin> set ?r"
  proof
    assume "CHR ''.'' \<in> set ?r"
    with sub have "CHR ''.'' = CHR ''_'' \<or> CHR ''.'' \<in> sanitize_char ` set domain"
      by blast
    then have "CHR ''.'' \<in> sanitize_char ` set domain"
      by simp
    then show False
      using sanitize_char_cases(2) by (blast dest: sym)
  qed
  have nohyp: "CHR ''-'' \<notin> set ?r"
  proof
    assume "CHR ''-'' \<in> set ?r"
    with sub have "CHR ''-'' = CHR ''_'' \<or> CHR ''-'' \<in> sanitize_char ` set domain"
      by blast
    then have "CHR ''-'' \<in> sanitize_char ` set domain"
      by simp
    then show False
      using sanitize_char_cases(3) by (blast dest: sym)
  qed
  have ex: "\<exists>pre. (pre = [] \<or> pre = ''_'') \<and> ?r = pre @ map sanitize_char domain"
  proof (cases ?ok)
    case True
    then have "?r = [] @ map sanitize_char domain"
      using r by simp
    then show ?thesis by blast
  next
    case False
    then have "?r = ''_'' @ map sanitize_char domain"
      by (subst r) (simp only: if_False)
    then show ?thesis by blast
  qed
  show ?thesis
    unfolding f using ne first all nodot nohyp ex by (intro conjI)
qed

theorem sanitize_module_name_identifier_witness:
  "sanitize_module_name ''3d-print.example.com'' = ''_3d_print_example_com'' \<and>
   hd (sanitize_module_name ''3d-print.example.com'') = CHR ''_'' \<and>
   CHR ''.'' \<notin> set (sanitize_module_name ''3d-print.example.com'')"
proof -
  have e: "sanitize_module_name ''3d-print.example.com'' = ''_3d_print_example_com''"
    by code_simp
  have "hd ''_3d_print_example_com'' = CHR ''_''"
    by simp
  with e sanitize_module_name_identifier [of "''3d-print.example.com''"] show ?thesis
    by presburger
qed

section \<open>Relative record names\<close>

lemma rsplit1_suffix:
  assumes "suffix (sep # x) s" and "sep \<notin> set x"
  shows "rsplit1 s sep ! 0 = take (length s - Suc (length x)) s"
proof -
  from assms(1) obtain p where s: "s = p @ sep # x"
    by (auto simp: suffix_def)
  have "dropWhile (\<lambda>c. c \<noteq> sep) (rev x @ sep # rev p)
          = dropWhile (\<lambda>c. c \<noteq> sep) (sep # rev p)"
    by (rule dropWhile_append2) (use assms(2) in auto)
  then have "dropWhile (\<lambda>c. c \<noteq> sep) (rev x @ sep # rev p) = sep # rev p"
    by simp
  then show ?thesis
    by (simp add: s rsplit1_def)
qed

lemma str_replace_Nil [simp]: "old \<noteq> [] \<Longrightarrow> str_replace [] old new = []"
  by simp

text \<open>
  C1.  For every zone name and every owner name, the relative record name written to
  the zone artifact and the one used in the import keys are computed the same way, and
  both are the name the specification describes: empty for the apex, the owner without
  the suffix \<open>.zone\<close> inside the zone, the whole owner otherwise; then \<open>\100\<close> replaced by
  \<open>@\<close>, a lone \<open>@\<close> made empty and a trailing \<open>.@\<close> or \<open>.\100\<close> cut off.  For zone
  \<open>example.com\<close> the owners \<open>example.com\<close>, \<open>www.example.com\<close> and \<open>\100.example.com\<close>
  give the empty string, \<open>www\<close> and the empty string.
\<close>

theorem relative_record_name_spec:
  "content_record_name zname owner = spec_relative_name zname owner \<and>
   import_record_name zname owner = spec_relative_name zname owner \<and>
   content_record_name ''example.com'' ''example.com'' = [] \<and>
   content_record_name ''example.com'' ''www.example.com'' = ''www'' \<and>
   content_record_name ''example.com'' (bslash # ''100.example.com'') = [] \<and>
   import_record_name ''example.com'' ''example.com'' = [] \<and>
   import_record_name ''example.com'' ''www.example.com'' = ''www'' \<and>
   import_record_name ''example.com'' (bslash # ''100.example.com'') = []"
proof -
  have a: "rsplit1 r (CHR ''.'') ! 0 = take (length r - 2) r" if "suffix ''.@'' r" for r
    using rsplit1_suffix [of "CHR ''.''" "''@''" r] that by (simp add: numeral_2_eq_2)
  have b: "rsplit1 r (CHR ''.'') ! 0 = take (length r - 5) r"
    if "suffix (''.'' @ bslash # ''100'') r" for r
    using rsplit1_suffix [of "CHR ''.''" "bslash # ''100''" r] that
    by (simp add: bslash_def eval_nat_numeral)
  have c: "content_record_name z n = spec_relative_name z n" for z n
    unfolding content_record_name_def spec_relative_name_def spec_strip_zone_def
      endswith_def Let_def
    by (auto simp: a b)
  have i: "import_record_name z n = content_record_name z n" for z n
    by (simp add: import_record_name_def content_record_name_def)
  have e1: "spec_relative_name ''example.com'' ''example.com'' = []"
    by code_simp
  have e2: "spec_relative_name ''example.com'' ''www.example.com'' = ''www''"
    by code_simp
  have e3: "spec_relative_name ''example.com'' (bslash # ''100.example.com'') = []"
    by code_simp
  show ?thesis
    by (simp only: i c e1 e2 e3 simp_thms)
qed

section \<open>TXT values\<close>

lemma str_replace_single:
  "str_replace s [a] new = concat (map (\<lambda>c. if c = a then new else [c]) s)"
  by (induction s) auto

lemma bslash_neq_dquote [simp]: "bslash \<noteq> dquote" "dquote \<noteq> bslash"
  by (simp_all add: bslash_def dquote_def)

lemma hcl_escape_concat: "hcl_escape s = concat (map escape_char s)"
  unfolding hcl_escape_def str_replace_single
  by (induction s) (auto simp: escape_char_def)

lemma hcl_unescape_plain: "c \<noteq> bslash \<Longrightarrow> hcl_unescape (c # xs) = c # hcl_unescape xs"
  by (cases xs) simp_all

lemma hcl_unescape_escape: "hcl_unescape (hcl_escape s) = s"
  unfolding hcl_escape_concat
  by (induction s) (auto simp: escape_char_def hcl_unescape_plain)

lemma inj_hcl_escape: "inj hcl_escape"
  by (rule inj_on_inverseI [where g = hcl_unescape]) (rule hcl_unescape_escape)

lemma txt_unquote_quoted: "txt_unquote ([dquote] @ s @ [dquote]) = s"
proof -
  have "suffix [dquote] (dquote # s @ [dquote])"
    by (metis append_Cons suffixI)
  then show ?thesis
    by (simp add: txt_unquote_def startswith_def endswith_def)
qed

lemma txt_unquote_other:
  "\<not> (startswith r [dquote] \<and> endswith r [dquote]) \<Longrightarrow> txt_unquote r = r"
  by (auto simp: txt_unquote_def)

lemma txt_unquote_single: "txt_unquote [dquote] = []"
  by (simp add: txt_unquote_def startswith_def endswith_def)


text \<open>
  C4.  A TXT value is written as a double quote, the escaped underlying text and a
  double quote.  The underlying text is the value without one layer of surrounding
  double quotes when the value starts and ends with a double quote, and the value
  itself otherwise.  The escaping turns each backslash into two backslashes, each
  double quote into a backslash and a double quote, and leaves every other character
  alone; it is injective, and reading the literal back gives the underlying text, for
  every input string.
\<close>

theorem txt_record_round_trip:
  "format_txt_record r = [dquote] @ hcl_escape (txt_unquote r) @ [dquote] \<and>
   txt_unquote ([dquote] @ s @ [dquote]) = s \<and>
   (\<not> (startswith r [dquote] \<and> endswith r [dquote]) \<longrightarrow> txt_unquote r = r) \<and>
   hcl_escape s = concat (map escape_char s) \<and>
   inj hcl_escape \<and>
   hcl_unescape (hcl_escape s) = s \<and>
   hcl_unescape (butlast (tl (format_txt_record r))) = txt_unquote r \<and>
   (rec_type record = ''TXT'' \<longrightarrow>
      formatted_records record = map format_txt_record (rec_records record))"
proof -
  have "butlast (tl (format_txt_record r)) = hcl_escape (txt_unquote r)"
    by (simp add: format_txt_record_def butlast_append)
  then have "hcl_unescape (butlast (tl (format_txt_record r))) = txt_unquote r"
    by (simp add: hcl_unescape_escape)
  then show ?thesis
    using txt_unquote_quoted [of s] txt_unquote_other [of r] hcl_escape_concat [of s]
      inj_hcl_escape hcl_unescape_escape [of s]
    by (simp add: format_txt_record_def formatted_records_def)
qed

theorem txt_record_round_trip_witness:
  "format_txt_record [dquote, CHR ''a'', dquote, bslash, CHR ''b'', dquote]
     = [dquote, CHR ''a'', bslash, dquote, bslash, bslash, CHR ''b'', dquote] \<and>
   hcl_unescape [CHR ''a'', bslash, dquote, bslash, bslash, CHR ''b'']
     = [CHR ''a'', dquote, bslash, CHR ''b''] \<and>
   txt_unquote ''v=spf1 -all'' = ''v=spf1 -all'' \<and>
   formatted_records \<lparr> rec_name = ''example.com'', rec_type = ''TXT'', rec_ttl = Some 300,
       rec_records = [[dquote] @ ''v=spf1 -all'' @ [dquote]], rec_alias = None \<rparr>
     = [[dquote] @ ''v=spf1 -all'' @ [dquote]]"
proof -
  let ?r = "[dquote, CHR ''a'', dquote, bslash, CHR ''b'', dquote]"
  let ?rec = "\<lparr> rec_name = ''example.com'', rec_type = ''TXT'', rec_ttl = Some 300,
       rec_records = [[dquote] @ ''v=spf1 -all'' @ [dquote]], rec_alias = None \<rparr>"
  note t = txt_record_round_trip [of ?r "[]" ?rec]
  note t' = txt_record_round_trip [of "''v=spf1 -all''" "[]" ?rec]
  have c1: "format_txt_record ?r = [dquote, CHR ''a'', bslash, dquote, bslash, bslash, CHR ''b'', dquote]"
    by code_simp
  have bt: "butlast (tl [dquote, CHR ''a'', bslash, dquote, bslash, bslash, CHR ''b'', dquote])
              = [CHR ''a'', bslash, dquote, bslash, bslash, CHR ''b'']"
    by simp
  have u: "txt_unquote ?r = [CHR ''a'', dquote, bslash, CHR ''b'']"
    by code_simp
  from t have "hcl_unescape (butlast (tl (format_txt_record ?r))) = txt_unquote ?r"
    by blast
  then have c2: "hcl_unescape [CHR ''a'', bslash, dquote, bslash, bslash, CHR ''b'']
                   = [CHR ''a'', dquote, bslash, CHR ''b'']"
    by (simp only: c1 bt u)
  have "\<not> (startswith ''v=spf1 -all'' [dquote] \<and> endswith ''v=spf1 -all'' [dquote])"
    by code_simp
  with t' have c3: "txt_unquote ''v=spf1 -all'' = ''v=spf1 -all''"
    by blast
  have "rec_type ?rec = ''TXT''"
    by simp
  with t have "formatted_records ?rec = map format_txt_record (rec_records ?rec)"
    by blast
  moreover have "format_txt_record ([dquote] @ ''v=spf1 -all'' @ [dquote])
                   = [dquote] @ ''v=spf1 -all'' @ [dquote]"
    by code_simp
  ultimately have c4: "formatted_records ?rec = [[dquote] @ ''v=spf1 -all'' @ [dquote]]"
    by simp
  from c1 c2 c3 c4 show ?thesis
    by (intro conjI)
qed

section \<open>Import blocks\<close>

lemma record_blocks_loop_concat:
  "record_blocks_loop zi records blocks =
     blocks @ concat (map (record_import_block zi)
                (filter (\<lambda>r. \<not> (rec_type r = ''NS'' \<or> rec_type r = ''SOA'')) records))"
  by (induction records arbitrary: blocks) simp_all

lemma import_blocks_loop_concat:
  "import_blocks_loop prov pzs blocks =
     blocks @ concat (map (\<lambda>zi. zone_import_block zi @
                                concat (map (record_import_block zi) (managed_records prov zi)))
                (filter pz_existing pzs))"
  by (induction pzs arbitrary: blocks)
     (simp_all add: record_blocks_loop_concat managed_records_def)

lemma import_blocks_concat:
  "import_blocks prov pzs =
     concat (map (\<lambda>zi. zone_import_block zi @
                        concat (map (record_import_block zi) (managed_records prov zi)))
       (filter pz_existing pzs))"
  by (simp add: import_blocks_def import_blocks_loop_concat)

lemma concat_map_split:
  assumes "x \<in> set xs"
  obtains pre post where "concat (map f xs) = pre @ f x @ post"
proof -
  from assms obtain ys zs where "xs = ys @ x # zs"
    by (auto dest: split_list)
  then have "concat (map f xs) = concat (map f ys) @ f x @ concat (map f zs)"
    by simp
  then show ?thesis
    by (rule that)
qed


lemma import_identifier_concat:
  "import_identifier zi rcd =
     pz_id zi @ ''_'' @
     concat (map (\<lambda>c. if c = bslash then [bslash, bslash] else [c])
               (rstrip_chars (rec_name rcd) ''.'')) @
     ''_'' @ rec_type rcd"
  by (simp add: import_identifier_def str_replace_single)

lemma record_import_block_id:
  "record_import_block zi rcd ! 3 = ''  id = '' @ [dquote] @ import_identifier zi rcd @ [dquote]"
  by (simp add: record_import_block_def)

lemma record_import_block_emitted:
  assumes "zi \<in> set pzs" "pz_existing zi"
    and "rcd \<in> set (fst (get_zone_records prov (pz_id zi) (pz_name zi)))"
    and "rec_type rcd \<noteq> ''NS''" "rec_type rcd \<noteq> ''SOA''"
  shows "\<exists>pre post. import_blocks prov pzs = pre @ record_import_block zi rcd @ post"
proof -
  let ?g = "\<lambda>zi. zone_import_block zi @
               concat (map (record_import_block zi) (managed_records prov zi))"
  from assms(3-5) have "rcd \<in> set (managed_records prov zi)"
    by (simp add: managed_records_def)
  then obtain p1 q1 where a: "concat (map (record_import_block zi) (managed_records prov zi))
      = p1 @ record_import_block zi rcd @ q1"
    by (rule concat_map_split [where f = "record_import_block zi"])
  from assms(1,2) have "zi \<in> set (filter pz_existing pzs)"
    by simp
  then obtain p2 q2 where b: "concat (map ?g (filter pz_existing pzs)) = p2 @ ?g zi @ q2"
    by (rule concat_map_split [where f = ?g])
  have "import_blocks prov pzs
          = (p2 @ zone_import_block zi @ p1) @ record_import_block zi rcd @ (q1 @ q2)"
    unfolding import_blocks_concat b a by simp
  then show ?thesis
    by (intro exI)
qed

text \<open>
  C5.  For a processed zone with id \<open>Z\<close> and a record of the zone, the import identifier
  is \<open>Z\<close>, an underscore, the record's owner name as the provider gave it with the
  trailing dots stripped and every backslash doubled for the string literal (so \<open>\100\<close>
  stays, written \<open>\\100\<close>), an underscore and the record type.  It is the text of the
  \<open>id\<close> line of the record's import block, and that block is part of the import blocks
  for every record of an existing processed zone whose type is neither NS nor SOA.  Zone
  id \<open>Z1\<close>, owner \<open>api.example.com\<close> and type \<open>A\<close> give \<open>Z1_api.example.com_A\<close>.
\<close>

theorem import_identifier_format:
  "import_identifier zi rcd =
     pz_id zi @ ''_'' @
     concat (map (\<lambda>c. if c = bslash then [bslash, bslash] else [c])
               (rstrip_chars (rec_name rcd) ''.'')) @
     ''_'' @ rec_type rcd \<and>
   record_import_block zi rcd ! 3 = ''  id = '' @ [dquote] @ import_identifier zi rcd @ [dquote] \<and>
   (zi \<in> set pzs \<and> pz_existing zi \<and>
    rcd \<in> set (fst (get_zone_records prov (pz_id zi) (pz_name zi))) \<and>
    rec_type rcd \<noteq> ''NS'' \<and> rec_type rcd \<noteq> ''SOA'' \<longrightarrow>
    (\<exists>pre post. import_blocks prov pzs = pre @ record_import_block zi rcd @ post)) \<and>
   import_identifier example_zone_info example_api_record = ''Z1_api.example.com_A'' \<and>
   import_identifier example_zone_info example_apex_record
     = ''Z1_'' @ [bslash, bslash] @ ''100.example.com_TXT''"
proof (intro conjI impI)
  show "import_identifier example_zone_info example_api_record = ''Z1_api.example.com_A''"
    by code_simp
  show "import_identifier example_zone_info example_apex_record
     = ''Z1_'' @ [bslash, bslash] @ ''100.example.com_TXT''"
    by code_simp
  assume "zi \<in> set pzs \<and> pz_existing zi \<and>
    rcd \<in> set (fst (get_zone_records prov (pz_id zi) (pz_name zi))) \<and>
    rec_type rcd \<noteq> ''NS'' \<and> rec_type rcd \<noteq> ''SOA''"
  then show "\<exists>pre post. import_blocks prov pzs = pre @ record_import_block zi rcd @ post"
    using record_import_block_emitted [of zi pzs rcd prov] by (elim conjE)
qed (rule import_identifier_concat record_import_block_id)+

theorem import_identifier_format_witness:
  "example_api_record \<in> set (fst (get_zone_records example_provider ''Z1'' ''example.com'')) \<and>
   (\<exists>pre post. import_blocks example_provider [example_zone_info]
        = pre @ record_import_block example_zone_info example_api_record @ post) \<and>
   record_import_block example_zone_info example_api_record ! 3
     = ''  id = '' @ [dquote] @ ''Z1_api.example.com_A'' @ [dquote]"
proof -
  note t = import_identifier_format [of example_zone_info example_api_record
      "[example_zone_info]" example_provider]
  have g: "fst (get_zone_records example_provider ''Z1'' ''example.com'') = [example_api_record]"
    by code_simp
  have i: "pz_id example_zone_info = ''Z1''" "pz_name example_zone_info = ''example.com''"
    "pz_existing example_zone_info" "rec_type example_api_record = ''A''"
    by (simp_all add: example_zone_info_def example_api_record_def)
  have c1: "example_api_record \<in> set (fst (get_zone_records example_provider ''Z1'' ''example.com''))"
    by (simp only: g list.set_intros)
  have h: "example_zone_info \<in> set [example_zone_info] \<and> pz_existing example_zone_info \<and>
    example_api_record \<in> set (fst (get_zone_records example_provider
        (pz_id example_zone_info) (pz_name example_zone_info))) \<and>
    rec_type example_api_record \<noteq> ''NS'' \<and> rec_type example_api_record \<noteq> ''SOA''"
    using c1 by (simp add: i)
  have c2: "\<exists>pre post. import_blocks example_provider [example_zone_info]
        = pre @ record_import_block example_zone_info example_api_record @ post"
    by (rule t [THEN conjunct2, THEN conjunct2, THEN conjunct1, THEN mp, OF h])
  have "record_import_block example_zone_info example_api_record ! 3
     = ''  id = '' @ [dquote] @ import_identifier example_zone_info example_api_record @ [dquote]"
    and "import_identifier example_zone_info example_api_record = ''Z1_api.example.com_A''"
    by (rule t [THEN conjunct2, THEN conjunct1],
        rule t [THEN conjunct2, THEN conjunct2, THEN conjunct2, THEN conjunct1])
  then have c3: "record_import_block example_zone_info example_api_record ! 3
     = ''  id = '' @ [dquote] @ ''Z1_api.example.com_A'' @ [dquote]"
    by (simp only:)
  from c1 c2 c3 show ?thesis
    by (intro conjI)
qed

section \<open>Delegation records\<close>

lemma is_subdomain_Some:
  "is_subdomain domain zones = Some p \<Longrightarrow> domain \<noteq> p \<and> suffix (''.'' @ p) domain"
  by (induction zones) (auto simp: endswith_def split: if_splits)

lemma delegation_records_lines:
  "delegation_records zname p ! 5 = ''  zone_name = '' @ [dquote] @ p @ [dquote]"
  "delegation_records zname p ! 9 = ''      name = '' @ [dquote] @
       take (length zname - (length p + 1)) zname @ [dquote]"
  "delegation_records zname p ! 10 = ''      type = '' @ [dquote] @ ''NS'' @ [dquote]"
  "delegation_records zname p ! 11 = ''      ttl  = 300''"
  by (simp_all add: delegation_records_def Let_def)

lemma content_lines_delegation:
  "p \<noteq> [] \<Longrightarrow> suffix (delegation_records (zone_name z) p) (content_lines z records (Some p))"
  unfolding content_lines_def Let_def option.case
  by (intro suffix_appendI) simp

text \<open>
  C8.  For a zone that \<open>is_subdomain\<close> finds to be a subdomain of a zone named \<open>p\<close> (a
  non-empty name), the artifact ends with the delegation record of the parent zone: the
  block names the parent as \<open>zone_name\<close>, its record is an NS record with the TTL 300,
  and the record's name is the zone's name without the suffix \<open>.p\<close>.  For the parent
  \<open>example.com\<close> and the subdomain \<open>dev.example.com\<close> the name is \<open>dev\<close>.
\<close>

theorem delegation_record_naming:
  "(is_subdomain (zone_name z) zones = Some p \<and> p \<noteq> [] \<longrightarrow>
      (\<exists>pre. zone_name z = pre @ ''.'' @ p \<and>
         delegation_records (zone_name z) p ! 9 = ''      name = '' @ [dquote] @ pre @ [dquote]) \<and>
      suffix (delegation_records (zone_name z) p)
        (content_lines z records (is_subdomain (zone_name z) zones))) \<and>
   delegation_records zname p ! 5 = ''  zone_name = '' @ [dquote] @ p @ [dquote] \<and>
   delegation_records zname p ! 10 = ''      type = '' @ [dquote] @ ''NS'' @ [dquote] \<and>
   delegation_records zname p ! 11 = ''      ttl  = 300'' \<and>
   delegation_records ''dev.example.com'' ''example.com'' ! 9
     = ''      name = '' @ [dquote] @ ''dev'' @ [dquote]"
proof (intro conjI impI)
  assume a: "is_subdomain (zone_name z) zones = Some p \<and> p \<noteq> []"
  then have "suffix (''.'' @ p) (zone_name z)"
    using is_subdomain_Some by blast
  then obtain pre where pre: "zone_name z = pre @ ''.'' @ p"
    by (auto simp: suffix_def)
  then have "take (length (zone_name z) - (length p + 1)) (zone_name z) = pre"
    by simp
  then have "delegation_records (zone_name z) p ! 9 = ''      name = '' @ [dquote] @ pre @ [dquote]"
    by (simp only: delegation_records_lines(2))
  with pre show "\<exists>pre. zone_name z = pre @ ''.'' @ p \<and>
         delegation_records (zone_name z) p ! 9 = ''      name = '' @ [dquote] @ pre @ [dquote]"
    by (intro exI conjI)
  from a show "suffix (delegation_records (zone_name z) p)
        (content_lines z records (is_subdomain (zone_name z) zones))"
    using content_lines_delegation [of p z records] by simp
next
  show "delegation_records ''dev.example.com'' ''example.com'' ! 9
     = ''      name = '' @ [dquote] @ ''dev'' @ [dquote]"
    by (simp add: delegation_records_lines(2))
qed (rule delegation_records_lines)+

theorem delegation_record_naming_witness:
  "is_subdomain (zone_name example_dev_zone) [example_parent_zone, example_dev_zone]
     = Some ''example.com'' \<and>
   suffix (delegation_records ''dev.example.com'' ''example.com'')
     (content_lines example_dev_zone [] (Some ''example.com''))"
proof -
  have s: "is_subdomain (zone_name example_dev_zone) [example_parent_zone, example_dev_zone]
     = Some ''example.com''"
    by code_simp
  have n: "zone_name example_dev_zone = ''dev.example.com''"
    by (simp add: example_dev_zone_def)
  have "is_subdomain (zone_name example_dev_zone) [example_parent_zone, example_dev_zone]
     = Some ''example.com'' \<and> ''example.com'' \<noteq> []"
    using s by simp
  from delegation_record_naming [of example_dev_zone "[example_parent_zone, example_dev_zone]"
      "''example.com''" "[]" "[]", THEN conjunct1, THEN mp, OF this, THEN conjunct2]
  have "suffix (delegation_records ''dev.example.com'' ''example.com'')
     (content_lines example_dev_zone [] (Some ''example.com''))"
    by (simp only: s n s [unfolded n])
  with s show ?thesis
    by (intro conjI)
qed

section \<open>Failures while listing records\<close>

lemma page_records_map:
  "page_records zname sets records =
     records @ map record_data (filter (kept_record_set zname) sets)"
  by (induction sets arbitrary: records) (simp_all add: kept_record_set_def)

lemma fetch_pages_failure:
  "fetch_pages zname (map Page pss @ ClientError e # rest) records =
     (records @ map record_data (filter (kept_record_set zname) (concat pss)),
      [''Error listing records for zone '' @ zname @ '': '' @ e])"
  by (induction pss arbitrary: records) (simp_all add: page_records_map)

lemma fetch_pages_success:
  "fetch_pages zname (map Page pss) records =
     (records @ map record_data (filter (kept_record_set zname) (concat pss)), [])"
  by (induction pss arbitrary: records) (simp_all add: page_records_map)

lemma process_zone_processed:
  assumes "\<not> (zone_files st (zone_name z) \<noteq> None \<and> \<not> force)" and "\<not> zone_private z"
  shows "fst (process_zone force dry_run prov all_zones st z) = True"
    and "processed_zones (snd (process_zone force dry_run prov all_zones st z)) =
           processed_zones st @
           [\<lparr> pz_name = zone_name z, pz_id = zone_id z,
              pz_is_subdomain = (is_subdomain (zone_name z) all_zones \<noteq> None),
              pz_has_records = (fst (get_zone_records prov (zone_id z) (zone_name z)) \<noteq> []),
              pz_existing = True \<rparr>]"
  using assms by (auto simp: process_zone_def Let_def)

lemma process_zone_names:
  "processed_names st \<subseteq> processed_names (snd (process_zone force dry_run prov all_zones st z))"
  by (auto simp: process_zone_def Let_def processed_names_def)

lemma process_zone_files:
  "zone_files (snd (process_zone force dry_run prov all_zones st z)) n \<noteq> None \<Longrightarrow>
   zone_files st n \<noteq> None \<or> n \<in> processed_names (snd (process_zone force dry_run prov all_zones st z))"
  by (auto simp: process_zone_def Let_def processed_names_def split: if_splits)

lemma process_zone_head:
  "\<not> zone_private z \<Longrightarrow> force \<or> zone_files st (zone_name z) = None \<or> zone_name z \<in> processed_names st \<Longrightarrow>
   zone_name z \<in> processed_names (snd (process_zone force dry_run prov all_zones st z))"
  by (auto simp: process_zone_def Let_def processed_names_def)

lemma process_all_step:
  "process_all force dry_run prov all_zones (z # zs) (st, p, s) =
     process_all force dry_run prov all_zones zs
       (snd (process_zone force dry_run prov all_zones st z),
        (if fst (process_zone force dry_run prov all_zones st z) then p + 1 else p),
        (if fst (process_zone force dry_run prov all_zones st z) then s else s + 1))"
  by (cases "process_zone force dry_run prov all_zones st z") auto

lemma process_all_names:
  "processed_names st \<subseteq> processed_names (fst (process_all force dry_run prov all_zones zs (st, p, s)))"
proof (induction zs arbitrary: st p s)
  case Nil
  then show ?case by simp
next
  case (Cons z zs)
  show ?case
    unfolding process_all_step
    using process_zone_names [of st force dry_run prov all_zones z] Cons.IH
    by (meson subset_trans)
qed

lemma process_all_continues:
  "z \<in> set zs \<Longrightarrow> \<not> zone_private z \<Longrightarrow>
   force \<or> zone_files st (zone_name z) = None \<or> zone_name z \<in> processed_names st \<Longrightarrow>
   zone_name z \<in> processed_names (fst (process_all force dry_run prov all_zones zs (st, p, s)))"
proof (induction zs arbitrary: st p s)
  case Nil
  then show ?case by simp
next
  case (Cons y zs)
  let ?st' = "snd (process_zone force dry_run prov all_zones st y)"
  show ?case
  proof (cases "z = y")
    case True
    with Cons.prems have "zone_name z \<in> processed_names ?st'"
      using process_zone_head by blast
    then show ?thesis
      unfolding process_all_step using process_all_names by blast
  next
    case False
    with Cons.prems have z: "z \<in> set zs" by simp
    have "force \<or> zone_files ?st' (zone_name z) = None \<or> zone_name z \<in> processed_names ?st'"
      using Cons.prems(3) process_zone_files [of force dry_run prov all_zones st y "zone_name z"]
        process_zone_names [of st force dry_run prov all_zones y]
      by blast
    then show ?thesis
      unfolding process_all_step using Cons.IH [OF z Cons.prems(2)] by blast
  qed
qed

text \<open>
  C9 (amended).  When listing a zone's records fails with a provider error, the failure
  is reported and \<open>get_zone_records\<close> returns the records of the pages retrieved before
  the failure: the empty list when the first page fails, the records so far otherwise.
  The call never fails itself, so a zone that is not skipped is processed with those
  records (\<open>has_records\<close> says whether there are any), and every zone of the batch that is
  not private and has no file yet (or is forced) is among the processed zones at the end,
  whatever the provider answers.
\<close>

theorem record_fetch_failure_partial:
  "(prov zid = map Page pss @ ClientError e # rest \<longrightarrow>
      get_zone_records prov zid zname =
        (map record_data (filter (kept_record_set zname) (concat pss)),
         [''Error listing records for zone '' @ zname @ '': '' @ e])) \<and>
   (prov zid = ClientError e # rest \<longrightarrow>
      get_zone_records prov zid zname =
        ([], [''Error listing records for zone '' @ zname @ '': '' @ e])) \<and>
   (\<not> (zone_files st (zone_name z) \<noteq> None \<and> \<not> force) \<and> \<not> zone_private z \<longrightarrow>
      fst (process_zone force dry_run prov all_zones st z) \<and>
      processed_zones (snd (process_zone force dry_run prov all_zones st z)) =
        processed_zones st @
        [\<lparr> pz_name = zone_name z, pz_id = zone_id z,
           pz_is_subdomain = (is_subdomain (zone_name z) all_zones \<noteq> None),
           pz_has_records = (fst (get_zone_records prov (zone_id z) (zone_name z)) \<noteq> []),
           pz_existing = True \<rparr>]) \<and>
   (z \<in> set zs \<and> \<not> zone_private z \<and> (force \<or> zone_files st (zone_name z) = None) \<longrightarrow>
      zone_name z \<in> processed_names (fst (process_all force dry_run prov all_zones zs (st, p, s))))"
proof (intro conjI impI)
  assume "prov zid = map Page pss @ ClientError e # rest"
  then show "get_zone_records prov zid zname =
        (map record_data (filter (kept_record_set zname) (concat pss)),
         [''Error listing records for zone '' @ zname @ '': '' @ e])"
    by (simp add: get_zone_records_def fetch_pages_failure)
next
  assume "prov zid = ClientError e # rest"
  then show "get_zone_records prov zid zname =
        ([], [''Error listing records for zone '' @ zname @ '': '' @ e])"
    by (simp add: get_zone_records_def)
next
  assume a: "\<not> (zone_files st (zone_name z) \<noteq> None \<and> \<not> force) \<and> \<not> zone_private z"
  then show "fst (process_zone force dry_run prov all_zones st z)"
    using process_zone_processed(1) [of st z force dry_run prov all_zones] by blast
  from a show "processed_zones (snd (process_zone force dry_run prov all_zones st z)) =
        processed_zones st @
        [\<lparr> pz_name = zone_name z, pz_id = zone_id z,
           pz_is_subdomain = (is_subdomain (zone_name z) all_zones \<noteq> None),
           pz_has_records = (fst (get_zone_records prov (zone_id z) (zone_name z)) \<noteq> []),
           pz_existing = True \<rparr>]"
    using process_zone_processed(2) [of st z force dry_run prov all_zones] by blast
next
  assume "z \<in> set zs \<and> \<not> zone_private z \<and> (force \<or> zone_files st (zone_name z) = None)"
  then show "zone_name z \<in> processed_names (fst (process_all force dry_run prov all_zones zs (st, p, s)))"
    using process_all_continues [of z zs force st dry_run prov all_zones p s] by blast
qed

theorem record_fetch_failure_partial_witness:
  "get_zone_records example_failing_provider ''Z1'' ''example.com'' =
     ([example_api_record], [''Error listing records for zone example.com: Throttling'']) \<and>
   ''dev.example.com'' \<in> processed_names (fst (process_all False False example_failing_provider
       [example_parent_zone, example_dev_zone] [example_parent_zone, example_dev_zone]
       (example_state, 0, 0))) \<and>
   fst (process_zone False False example_failing_provider
       [example_parent_zone, example_dev_zone] example_state example_parent_zone) \<and>
   get_zone_records (\<lambda>zid. [ClientError ''Throttling'']) ''Z1'' ''example.com'' =
     ([], [''Error listing records for zone example.com: Throttling''])"
proof -
  let ?zs = "[example_parent_zone, example_dev_zone]"
  let ?set = "\<lparr> rrs_Name = ''api.example.com.'', rrs_Type = ''A'', rrs_TTL = Some 300,
              rrs_ResourceRecords = Some [''192.0.2.1''], rrs_AliasTarget = None \<rparr>"
  note t = record_fetch_failure_partial [of example_failing_provider "''Z1''" "[[?set]]"
      "''Throttling''" "[]" "''example.com''" example_state example_dev_zone False False
      ?zs ?zs 0 0]
  note t2 = record_fetch_failure_partial [of "\<lambda>zid. [ClientError ''Throttling'']" "''Z1''" "[]"
      "''Throttling''" "[]" "''example.com''" example_state example_parent_zone False False
      ?zs ?zs 0 0]
  note t3 = record_fetch_failure_partial [of example_failing_provider "''Z1''" "[]"
      "''Throttling''" "[]" "''example.com''" example_state example_parent_zone False False
      ?zs ?zs 0 0]
  have h1: "example_failing_provider ''Z1'' = map Page [[?set]] @ ClientError ''Throttling'' # []"
    by (simp add: example_failing_provider_def)
  have r: "map record_data (filter (kept_record_set ''example.com'') (concat [[?set]]))
             = [example_api_record]"
    by code_simp
  have c1: "get_zone_records example_failing_provider ''Z1'' ''example.com'' =
     ([example_api_record], [''Error listing records for zone example.com: Throttling''])"
    using t [THEN conjunct1, THEN mp, OF h1] by (simp only: r append.simps)
  have z: "zone_name example_dev_zone = ''dev.example.com''" "\<not> zone_private example_dev_zone"
    "zone_name example_parent_zone = ''example.com''" "\<not> zone_private example_parent_zone"
    "zone_files example_state n = None" for n
    by (simp_all add: example_dev_zone_def example_parent_zone_def example_state_def)
  have h4: "example_dev_zone \<in> set ?zs \<and> \<not> zone_private example_dev_zone \<and>
      (False \<or> zone_files example_state (zone_name example_dev_zone) = None)"
    by (simp add: z)
  have c2: "''dev.example.com'' \<in> processed_names (fst (process_all False False
       example_failing_provider ?zs ?zs (example_state, 0, 0)))"
    using t [THEN conjunct2, THEN conjunct2, THEN conjunct2, THEN mp, OF h4]
    by (simp only: z)
  have h3: "\<not> (zone_files example_state (zone_name example_parent_zone) \<noteq> None \<and> \<not> False) \<and>
      \<not> zone_private example_parent_zone"
    by (simp add: z)
  have c3: "fst (process_zone False False example_failing_provider ?zs example_state
      example_parent_zone)"
    using t3 [THEN conjunct2, THEN conjunct2, THEN conjunct1, THEN mp, OF h3, THEN conjunct1] .
  have c4: "get_zone_records (\<lambda>zid. [ClientError ''Throttling'']) ''Z1'' ''example.com'' =
     ([], [''Error listing records for zone example.com: Throttling''])"
    using t2 [THEN conjunct2, THEN conjunct1, THEN mp] by simp
  from c1 c2 c3 c4 show ?thesis
    by (intro conjI)
qed

text \<open>
  C9 as stated fails: when the second page fails, the record of the first page is
  returned, not the empty record set.
\<close>

theorem record_fetch_failure_empty_counterexample:
  "example_failing_provider ''Z1'' =
     [Page [\<lparr> rrs_Name = ''api.example.com.'', rrs_Type = ''A'', rrs_TTL = Some 300,
              rrs_ResourceRecords = Some [''192.0.2.1''], rrs_AliasTarget = None \<rparr>],
      ClientError ''Throttling''] \<and>
   snd (get_zone_records example_failing_provider ''Z1'' ''example.com'')
     = [''Error listing records for zone example.com: Throttling''] \<and>
   fst (get_zone_records example_failing_provider ''Z1'' ''example.com'') = [example_api_record] \<and>
   fst (get_zone_records example_failing_provider ''Z1'' ''example.com'') \<noteq> []"
proof -
  have "get_zone_records example_failing_provider ''Z1'' ''example.com'' =
     ([example_api_record], [''Error listing records for zone example.com: Throttling''])"
    by code_simp
  then show ?thesis
    by (simp add: example_failing_provider_def)
qed

section \<open>The order of the bindings\<close>







section \<open>Import blocks that are already in the file\<close>

lemma isspace_space [simp]: "isspace (CHR '' '')"
  by (simp add: isspace_def)













lemma all_bindings:
  "filter (\<lambda>l. startswith l ''  to ='') (import_blocks prov pzs)
     = map (\<lambda>a. ''  to = '' @ a) (binding_addresses prov pzs)"
  unfolding import_blocks_concat binding_addresses_def
  by (induction pzs)
     (simp_all add: zone_import_block_def record_import_block_def startswith_def
        filter_concat comp_def map_concat)




section \<open>Running the aggregate update twice\<close>







section \<open>What the aggregate update changes\<close>











end
